theory Spec2Isabelle
  imports Complex_Main
begin

section \<open>Configuration of the command line client (pkg/config/config.go)\<close>

text \<open>
  The file embeds \<^verbatim>\<open>pkg/config/config.go\<close>: the \<^verbatim>\<open>Config\<close> struct, the
  functions \<^verbatim>\<open>Armed\<close> and \<^verbatim>\<open>tokenExpiry\<close>, and the functions \<^verbatim>\<open>Location\<close>,
  \<^verbatim>\<open>Load\<close>, \<^verbatim>\<open>Save\<close> and \<^verbatim>\<open>Remove\<close> over an explicit environment (the
  environment variables and the files).

  A Go function returning \<^verbatim>\<open>(x, err)\<close> is a function returning a pair whose last
  component is an \<open>error option\<close>: \<open>None\<close> is \<^verbatim>\<open>nil\<close>. The pair is kept (rather than
  a sum type) because Go can return a value together with an error, and the named results of
  the source keep their zero values on an early \<^verbatim>\<open>return\<close>. An error is the text that
  \<^verbatim>\<open>err.Error()\<close> gives, as \<^verbatim>\<open>fmt.Errorf\<close> builds it.
\<close>

type_synonym error = string

subsection \<open>Values decoded from JSON\<close>

text \<open>
  What \<^verbatim>\<open>encoding/json\<close> decodes into an \<^verbatim>\<open>interface{}\<close>: \<^verbatim>\<open>nil\<close>, \<^verbatim>\<open>bool\<close>,
  \<^verbatim>\<open>float64\<close>, \<^verbatim>\<open>string\<close>, \<^verbatim>\<open>[]interface{}\<close> and \<^verbatim>\<open>map[string]interface{}\<close>.
  A JSON number is decoded into a finite \<^verbatim>\<open>float64\<close> (a number out of range is a decoding
  error, and JSON has no NaN or infinity); the model keeps the exact value of that float as a
  rational, so \<open>-0.0\<close> and \<open>0.0\<close> are both \<open>0\<close>, as \<^verbatim>\<open>==\<close> has them in Go.
\<close>

datatype json =
    JNull
  | JBool bool
  | JNumber rat
  | JString string
  | JArray "json list"
  | JObject "(string \<times> json) list"

text \<open>The \<^verbatim>\<open>%T\<close> verb of \<^verbatim>\<open>fmt\<close> on a decoded value.\<close>

fun go_type :: "json \<Rightarrow> string" where
  "go_type JNull = ''<nil>''"
| "go_type (JBool _) = ''bool''"
| "go_type (JNumber _) = ''float64''"
| "go_type (JString _) = ''string''"
| "go_type (JArray _) = ''[]interface {}''"
| "go_type (JObject _) = ''map[string]interface {}''"

subsection \<open>The Config struct\<close>

text \<open>
  A Go string is a sequence of bytes, as \<open>string\<close> is here. A slice is a list: the \<^verbatim>\<open>nil\<close>
  slice and the empty slice are both \<open>[]\<close> (both have length 0, which is all that
  \<^verbatim>\<open>omitempty\<close> looks at).
\<close>

record Config =
  AccessToken :: string
  ClientID :: string
  ClientSecret :: string
  Insecure :: bool
  Password :: string
  RefreshToken :: string
  Scopes :: "string list"
  Token :: string
  TokenURL :: string
  URL :: string
  User :: string

text \<open>The zero value of the struct, \<^verbatim>\<open>Config{}\<close>, as \<^verbatim>\<open>new(Config)\<close> points to.\<close>

definition new_Config :: Config where
  "new_Config =
     \<lparr>AccessToken = '''', ClientID = '''', ClientSecret = '''', Insecure = False,
      Password = '''', RefreshToken = '''', Scopes = [], Token = '''', TokenURL = '''',
      URL = '''', User = ''''\<rparr>"

subsection \<open>Time\<close>

text \<open>
  A \<^verbatim>\<open>time.Time\<close> is an instant, here the count of nanoseconds since the Unix epoch
  (negative before 1970). A \<^verbatim>\<open>time.Duration\<close> is a signed 64-bit count of nanoseconds.
  \<^verbatim>\<open>time.Unix(sec, nsec)\<close> is the instant that many seconds and nanoseconds after the
  epoch. \<^verbatim>\<open>Time.Sub\<close> is documented to give the difference of the two instants, and the
  largest (smallest) duration when the difference does not fit. The model has every instant;
  a \<^verbatim>\<open>time.Time\<close> holds those whose count of seconds since the year 1 is an \<^verbatim>\<open>int64\<close>.
\<close>

type_synonym Time = int
type_synonym Duration = int

definition Second :: Duration where
  "Second = 1000000000"

definition minDuration :: Duration where
  "minDuration = - (2 ^ 63)"

definition maxDuration :: Duration where
  "maxDuration = 2 ^ 63 - 1"

definition Unix :: "int \<Rightarrow> int \<Rightarrow> Time" where
  "Unix sec nsec = sec * 1000000000 + nsec"

definition Sub :: "Time \<Rightarrow> Time \<Rightarrow> Duration" where
  "Sub t u =
     (if t - u < minDuration then minDuration
      else if maxDuration < t - u then maxDuration
      else t - u)"

text \<open>
  The conversion \<^verbatim>\<open>int64(exp)\<close> of a \<^verbatim>\<open>float64\<close> discards the fraction (truncation
  towards zero). When the truncated value is not an \<^verbatim>\<open>int64\<close> the Go specification leaves
  the result to the implementation; the model gives what amd64 gives there, the smallest
  \<^verbatim>\<open>int64\<close>. The theorems below that depend on the converted value keep to floats in range.
\<close>

definition trunc :: "rat \<Rightarrow> int" where
  "trunc x = (if 0 \<le> x then \<lfloor>x\<rfloor> else \<lceil>x\<rceil>)"

definition int64 :: "rat \<Rightarrow> int" where
  "int64 x =
     (if - (2 ^ 63) \<le> trunc x \<and> trunc x < 2 ^ 63 then trunc x else - (2 ^ 63))"

subsection \<open>Tokens\<close>

text \<open>
  \<^verbatim>\<open>jwt.Parser.ParseUnverified\<close> belongs to the library \<^verbatim>\<open>github.com/dgrijalva/jwt-go\<close>,
  not to this repository: the functions below take it as the parameter \<open>parse\<close>, from the
  text of a token to either the library's error or the parsed token. Of the parsed token only
  the field \<^verbatim>\<open>Claims\<close> is read. Its dynamic type is \<^verbatim>\<open>jwt.MapClaims\<close> (a Go map from
  claim names to decoded JSON values) or another implementation of the interface
  \<^verbatim>\<open>jwt.Claims\<close>.
\<close>

datatype Claims =
    MapClaims "string \<rightharpoonup> json"
  | OtherClaims

record jwt_Token =
  Claims :: Claims

type_synonym Parser = "string \<Rightarrow> error + jwt_Token"

text \<open>
  The type assertion \<^verbatim>\<open>claim.(float64)\<close>: the float when the decoded value is a
  number, and \<open>None\<close> (\<^verbatim>\<open>ok == false\<close>) otherwise.
\<close>

fun assert_float64 :: "json \<Rightarrow> rat option" where
  "assert_float64 (JNumber x) = Some x"
| "assert_float64 _ = None"

text \<open>
  \<^verbatim>\<open>tokenExpiry(text, now)\<close>, results \<^verbatim>\<open>(expires, left, err)\<close>. Every early
  \<^verbatim>\<open>return\<close> leaves \<^verbatim>\<open>expires\<close> and \<^verbatim>\<open>left\<close> at their zero values. In the message
  of the failed type assertion on \<^verbatim>\<open>token.Claims\<close>, \<^verbatim>\<open>%T\<close> prints the type of the zero
  \<^verbatim>\<open>jwt.MapClaims\<close> that the assertion leaves in \<^verbatim>\<open>claims\<close>.
\<close>

definition tokenExpiry :: "Parser \<Rightarrow> string \<Rightarrow> Time \<Rightarrow> bool \<times> Duration \<times> error option" where
  "tokenExpiry parse text now =
     (case parse text of
        Inl e \<Rightarrow> (False, 0, Some (''cant parse token: '' @ e))
      | Inr token \<Rightarrow>
          (case Claims token of
             OtherClaims \<Rightarrow> (False, 0, Some ''expected map claims bug got jwt.MapClaims'')
           | MapClaims claims \<Rightarrow>
               (case claims ''exp'' of
                  None \<Rightarrow> (False, 0, Some ''token doesn't contain the 'exp' claim'')
                | Some claim \<Rightarrow>
                    (case assert_float64 claim of
                       None \<Rightarrow>
                         (False, 0,
                          Some (''expected floating point 'exp' but got '' @ go_type claim))
                     | Some exp' \<Rightarrow>
                         (if exp' = 0 then (False, 0, None)
                          else (True, Sub (Unix (int64 exp') 0) now, None))))))"

text \<open>
  \<^verbatim>\<open>Armed(cfg)\<close>, results \<^verbatim>\<open>(armed, err)\<close>. The source reads the clock with
  \<^verbatim>\<open>time.Now()\<close> after the two checks of the static credentials; the instant read is the
  parameter \<open>now\<close>.
\<close>

definition Armed :: "Parser \<Rightarrow> Time \<Rightarrow> Config \<Rightarrow> bool \<times> error option" where
  "Armed parse now cfg =
     (if User cfg \<noteq> '''' \<and> Password cfg \<noteq> '''' then (True, None)
      else if ClientID cfg \<noteq> '''' \<and> ClientSecret cfg \<noteq> '''' then (True, None)
      else
        (case (if AccessToken cfg \<noteq> ''''
               then (case tokenExpiry parse (AccessToken cfg) now of
                       (expires, left, Some e) \<Rightarrow> Some (False, Some e)
                     | (expires, left, None) \<Rightarrow>
                         (if \<not> expires \<or> left > 5 * Second then Some (True, None) else None))
               else None) of
           Some r \<Rightarrow> r
         | None \<Rightarrow>
             (if RefreshToken cfg \<noteq> ''''
              then (case tokenExpiry parse (RefreshToken cfg) now of
                      (expires, left, Some e) \<Rightarrow> (False, Some e)
                    | (expires, left, None) \<Rightarrow>
                        (if \<not> expires \<or> left > 10 * Second then (True, None)
                         else (False, None)))
              else (False, None))))"

subsection \<open>Strings as encoding/json writes them\<close>

text \<open>
  The package documentation of \<^verbatim>\<open>encoding/json\<close>: "String values encode as JSON strings
  coerced to valid UTF-8, replacing invalid bytes with the Unicode replacement rune." The
  encoder walks the string with \<^verbatim>\<open>utf8.DecodeRuneInString\<close> and writes the escape of U+FFFD for
  every byte at which no valid encoding starts; the decoder reads that escape as the three
  bytes of U+FFFD.
\<close>

definition byte :: "char \<Rightarrow> nat" where
  "byte c = of_char c"

definition cont :: "char \<Rightarrow> bool" where
  "cont c = (0x80 \<le> byte c \<and> byte c \<le> 0xBF)"

text \<open>
  The size of the UTF-8 encoding at the head of a string, and \<open>0\<close> when no valid encoding
  starts there (\<^verbatim>\<open>utf8.DecodeRuneInString\<close> then gives \<^verbatim>\<open>RuneError\<close> with size 1).
\<close>

fun rune_size :: "string \<Rightarrow> nat" where
  "rune_size [] = 0"
| "rune_size (a # s) =
     (if byte a < 0x80 then 1
      else if 0xC2 \<le> byte a \<and> byte a \<le> 0xDF then
        (case s of
           b # _ \<Rightarrow> if cont b then 2 else 0
         | _ \<Rightarrow> 0)
      else if 0xE0 \<le> byte a \<and> byte a \<le> 0xEF then
        (case s of
           b # c # _ \<Rightarrow>
             if (if byte a = 0xE0 then 0xA0 else 0x80) \<le> byte b \<and>
                byte b \<le> (if byte a = 0xED then 0x9F else 0xBF) \<and> cont c
             then 3 else 0
         | _ \<Rightarrow> 0)
      else if 0xF0 \<le> byte a \<and> byte a \<le> 0xF4 then
        (case s of
           b # c # d # _ \<Rightarrow>
             if (if byte a = 0xF0 then 0x90 else 0x80) \<le> byte b \<and>
                byte b \<le> (if byte a = 0xF4 then 0x8F else 0xBF) \<and> cont c \<and> cont d
             then 4 else 0
         | _ \<Rightarrow> 0)
      else 0)"


text \<open>
  \<open>coerce k s\<close> keeps the first \<open>k\<close> bytes (the rest of an encoding already accepted) and
  then, at each byte, either accepts the encoding that starts there or writes U+FFFD for it.
\<close>

fun coerce :: "nat \<Rightarrow> string \<Rightarrow> string" where
  "coerce k [] = []"
| "coerce (Suc k) (a # s) = a # coerce k s"
| "coerce 0 (a # s) =
     (case rune_size (a # s) of
        0 \<Rightarrow> [CHR 0xEF, CHR 0xBF, CHR 0xBD] @ coerce 0 s
      | Suc n \<Rightarrow> a # coerce n s)"

definition json_string :: "string \<Rightarrow> string" where
  "json_string s = coerce 0 s"

text \<open>\<^verbatim>\<open>utf8.ValidString\<close>: every byte belongs to a valid encoding.\<close>

fun valid :: "nat \<Rightarrow> string \<Rightarrow> bool" where
  "valid k [] = True"
| "valid (Suc k) (a # s) = valid k s"
| "valid 0 (a # s) =
     (case rune_size (a # s) of
        0 \<Rightarrow> False
      | Suc n \<Rightarrow> valid n s)"

definition ValidString :: "string \<Rightarrow> bool" where
  "ValidString s = valid 0 s"



subsection \<open>The Config struct as a JSON object\<close>

text \<open>
  \<^verbatim>\<open>encoding/json\<close> goes through the fields of the struct by reflection. A field has the
  key of its \<^verbatim>\<open>json\<close> tag and a value of type \<^verbatim>\<open>string\<close>, \<^verbatim>\<open>bool\<close> or
  \<^verbatim>\<open>[]string\<close>; every tag of \<^verbatim>\<open>Config\<close> says \<^verbatim>\<open>omitempty\<close>.
\<close>

datatype field =
    FAccessToken | FClientID | FClientSecret | FInsecure | FPassword | FRefreshToken
  | FScopes | FToken | FTokenURL | FURL | FUser

definition typeFields :: "field list" where
  "typeFields =
     [FAccessToken, FClientID, FClientSecret, FInsecure, FPassword, FRefreshToken,
      FScopes, FToken, FTokenURL, FURL, FUser]"

fun key :: "field \<Rightarrow> string" where
  "key FAccessToken = ''access_token''"
| "key FClientID = ''client_id''"
| "key FClientSecret = ''client_secret''"
| "key FInsecure = ''insecure''"
| "key FPassword = ''password''"
| "key FRefreshToken = ''refresh_token''"
| "key FScopes = ''scopes''"
| "key FToken = ''token''"
| "key FTokenURL = ''token_url''"
| "key FURL = ''url''"
| "key FUser = ''user''"

datatype val = VString string | VBool bool | VStrings "string list"

fun get :: "field \<Rightarrow> Config \<Rightarrow> val" where
  "get FAccessToken cfg = VString (AccessToken cfg)"
| "get FClientID cfg = VString (ClientID cfg)"
| "get FClientSecret cfg = VString (ClientSecret cfg)"
| "get FInsecure cfg = VBool (Insecure cfg)"
| "get FPassword cfg = VString (Password cfg)"
| "get FRefreshToken cfg = VString (RefreshToken cfg)"
| "get FScopes cfg = VStrings (Scopes cfg)"
| "get FToken cfg = VString (Token cfg)"
| "get FTokenURL cfg = VString (TokenURL cfg)"
| "get FURL cfg = VString (URL cfg)"
| "get FUser cfg = VString (User cfg)"

text \<open>Storing a value in a field; a value of another type than the field's is not stored.\<close>

fun set_field :: "field \<Rightarrow> val \<Rightarrow> Config \<Rightarrow> Config" where
  "set_field FAccessToken (VString s) cfg = cfg\<lparr>AccessToken := s\<rparr>"
| "set_field FClientID (VString s) cfg = cfg\<lparr>ClientID := s\<rparr>"
| "set_field FClientSecret (VString s) cfg = cfg\<lparr>ClientSecret := s\<rparr>"
| "set_field FInsecure (VBool b) cfg = cfg\<lparr>Insecure := b\<rparr>"
| "set_field FPassword (VString s) cfg = cfg\<lparr>Password := s\<rparr>"
| "set_field FRefreshToken (VString s) cfg = cfg\<lparr>RefreshToken := s\<rparr>"
| "set_field FScopes (VStrings xs) cfg = cfg\<lparr>Scopes := xs\<rparr>"
| "set_field FToken (VString s) cfg = cfg\<lparr>Token := s\<rparr>"
| "set_field FTokenURL (VString s) cfg = cfg\<lparr>TokenURL := s\<rparr>"
| "set_field FURL (VString s) cfg = cfg\<lparr>URL := s\<rparr>"
| "set_field FUser (VString s) cfg = cfg\<lparr>User := s\<rparr>"
| "set_field _ _ cfg = cfg"

text \<open>
  \<^verbatim>\<open>json.MarshalIndent(cfg, "", "  ")\<close>. A field with \<^verbatim>\<open>omitempty\<close> is left out when it
  is the empty string, \<^verbatim>\<open>false\<close>, or a slice of length 0. The other fields are written in
  the order of the struct, strings coerced to valid UTF-8. The indentation is white space
  between the tokens of the text and is not part of the document. Marshalling a
  \<^verbatim>\<open>Config\<close> has no error.
\<close>

fun encode :: "val \<Rightarrow> json" where
  "encode (VString s) = JString (json_string s)"
| "encode (VBool b) = JBool b"
| "encode (VStrings xs) = JArray (map (\<lambda>s. JString (json_string s)) xs)"

fun isEmptyValue :: "val \<Rightarrow> bool" where
  "isEmptyValue (VString s) = (s = '''')"
| "isEmptyValue (VBool b) = (\<not> b)"
| "isEmptyValue (VStrings xs) = (xs = [])"

definition encode_field :: "Config \<Rightarrow> field \<Rightarrow> (string \<times> json) list" where
  "encode_field cfg f =
     (if isEmptyValue (get f cfg) then [] else [(key f, encode (get f cfg))])"

definition MarshalIndent :: "Config \<Rightarrow> json \<times> error option" where
  "MarshalIndent cfg = (JObject (concat (map (encode_field cfg) typeFields)), None)"

text \<open>
  \<^verbatim>\<open>json.Unmarshal(data, cfg)\<close> on a document. The key of an object member selects the field
  with exactly that key, and otherwise the first field whose key matches it without regard
  to case; a member that matches no field is skipped. The folding is the one of the
  package: an ASCII letter matches the letter in either case, \<^verbatim>\<open>s\<close> also matches U+017F
  and \<^verbatim>\<open>k\<close> also matches U+212A.
\<close>

definition is_letter :: "char \<Rightarrow> bool" where
  "is_letter c = ((0x41 \<le> byte c \<and> byte c \<le> 0x5A) \<or> (0x61 \<le> byte c \<and> byte c \<le> 0x7A))"

definition clear_case :: "char \<Rightarrow> nat" where
  "clear_case c = (if (byte c div 32) mod 2 = 1 then byte c - 32 else byte c)"

fun equalFold :: "string \<Rightarrow> string \<Rightarrow> bool" where
  "equalFold [] t = (t = [])"
| "equalFold (sb # s) [] = False"
| "equalFold (sb # s) (tb # t) =
     (if byte tb < 0x80 then
        (sb = tb \<or> (is_letter sb \<and> clear_case sb = clear_case tb)) \<and> equalFold s t
      else if sb = CHR ''s'' \<or> sb = CHR ''S'' then
        take 2 (tb # t) = [CHR 0xC5, CHR 0xBF] \<and> equalFold s (drop 1 t)
      else if sb = CHR ''k'' \<or> sb = CHR ''K'' then
        take 3 (tb # t) = [CHR 0xE2, CHR 0x84, CHR 0xAA] \<and> equalFold s (drop 2 t)
      else False)"

definition find_field :: "string \<Rightarrow> field option" where
  "find_field k =
     (case find (\<lambda>f. key f = k) typeFields of
        Some f \<Rightarrow> Some f
      | None \<Rightarrow> find (\<lambda>f. equalFold (key f) k) typeFields)"

text \<open>
  The text of an \<^verbatim>\<open>UnmarshalTypeError\<close>: the kind of JSON value found, and the field and
  Go type it does not fit.
\<close>

fun json_kind :: "json \<Rightarrow> string" where
  "json_kind JNull = ''null''"
| "json_kind (JBool _) = ''bool''"
| "json_kind (JNumber _) = ''number''"
| "json_kind (JString _) = ''string''"
| "json_kind (JArray _) = ''array''"
| "json_kind (JObject _) = ''object''"

fun go_field_type :: "val \<Rightarrow> string" where
  "go_field_type (VString _) = ''string''"
| "go_field_type (VBool _) = ''bool''"
| "go_field_type (VStrings _) = ''[]string''"

definition type_error :: "json \<Rightarrow> field \<Rightarrow> string \<Rightarrow> error" where
  "type_error v f ty =
     ''json: cannot unmarshal '' @ json_kind v @ '' into Go struct field Config.'' @ key f @
     '' of type '' @ ty"

text \<open>
  The decoder keeps the first error and goes on ("completes the unmarshaling as best it
  can"). \<^verbatim>\<open>null\<close> leaves a string or a bool as it is and makes a slice \<^verbatim>\<open>nil\<close>. An
  array is decoded into a slice of its length, element by element: a string is stored, and
  \<^verbatim>\<open>null\<close> or a value of another type leaves the empty string.
\<close>

definition first_error :: "error option \<Rightarrow> error option \<Rightarrow> error option" where
  "first_error saved e = (case saved of None \<Rightarrow> e | Some _ \<Rightarrow> saved)"

fun decode_element :: "field \<Rightarrow> json \<Rightarrow> string \<times> error option" where
  "decode_element f (JString s) = (s, None)"
| "decode_element f JNull = ('''', None)"
| "decode_element f v = ('''', Some (type_error v f ''string''))"

definition decode_value :: "field \<Rightarrow> json \<Rightarrow> Config \<Rightarrow> Config \<times> error option" where
  "decode_value f v cfg =
     (case (get f cfg, v) of
        (VStrings _, JNull) \<Rightarrow> (set_field f (VStrings []) cfg, None)
      | (_, JNull) \<Rightarrow> (cfg, None)
      | (VString _, JString s) \<Rightarrow> (set_field f (VString s) cfg, None)
      | (VBool _, JBool b) \<Rightarrow> (set_field f (VBool b) cfg, None)
      | (VStrings _, JArray vs) \<Rightarrow>
          (set_field f (VStrings (map (\<lambda>x. fst (decode_element f x)) vs)) cfg,
           foldl first_error None (map (\<lambda>x. snd (decode_element f x)) vs))
      | (old, _) \<Rightarrow> (cfg, Some (type_error v f (go_field_type old))))"

definition decode_member :: "Config \<times> error option \<Rightarrow> string \<times> json \<Rightarrow> Config \<times> error option" where
  "decode_member st m =
     (case find_field (fst m) of
        None \<Rightarrow> st
      | Some f \<Rightarrow>
          (case decode_value f (snd m) (fst st) of
             (cfg, e) \<Rightarrow> (cfg, first_error (snd st) e)))"

text \<open>
  The contents of a file, as far as \<^verbatim>\<open>json.Unmarshal\<close> tells them apart: a JSON text,
  given by the document it denotes, or bytes that are not a JSON text, given by the syntax
  error that the package reports on them. A text that is not JSON is refused before anything
  is stored.
\<close>

datatype data = Document json | NotJSON error

fun Unmarshal :: "data \<Rightarrow> Config \<Rightarrow> Config \<times> error option" where
  "Unmarshal (NotJSON e) cfg = (cfg, Some e)"
| "Unmarshal (Document (JObject members)) cfg = foldl decode_member (cfg, None) members"
| "Unmarshal (Document JNull) cfg = (cfg, None)"
| "Unmarshal (Document v) cfg =
     (cfg, Some (''json: cannot unmarshal '' @ json_kind v @ '' into Go value of type config.Config''))"


subsection \<open>The environment of the process\<close>

text \<open>
  What the functions of the store read and change: the environment variables and the files.
  A path names nothing (\<open>None\<close>), or one of:
  \<^item> a regular file that the process can read, write and remove, with its contents and its
    permission bits;
  \<^item> a file that the process can see but neither read, write nor remove;
  \<^item> a place that the process cannot look at (a directory on the way denies access);
  \<^item> a place in a directory that does not exist, where no file can be made.
\<close>

datatype node =
    File data nat
  | Protected
  | Unreachable
  | NoDirectory

record Env =
  environ :: "string \<rightharpoonup> string"
  files :: "string \<rightharpoonup> node"

text \<open>\<^verbatim>\<open>os.Getenv\<close>: the empty string for a variable that is not set.\<close>

definition Getenv :: "Env \<Rightarrow> string \<Rightarrow> string" where
  "Getenv env k = (case environ env k of None \<Rightarrow> '''' | Some v \<Rightarrow> v)"

text \<open>
  The errors of the package \<^verbatim>\<open>os\<close> are \<^verbatim>\<open>*PathError\<close> values: the operation, the path
  and the error number of the system call. \<^verbatim>\<open>os.IsNotExist\<close> holds for \<^verbatim>\<open>ENOENT\<close>, and
  not for \<^verbatim>\<open>nil\<close>.
\<close>

datatype Errno = ENOENT | EACCES

datatype PathError = PathError string string Errno

fun errno_text :: "Errno \<Rightarrow> string" where
  "errno_text ENOENT = ''no such file or directory''"
| "errno_text EACCES = ''permission denied''"

fun Error :: "PathError \<Rightarrow> error" where
  "Error (PathError op path e) = op @ '' '' @ path @ '': '' @ errno_text e"

fun IsNotExist :: "PathError option \<Rightarrow> bool" where
  "IsNotExist (Some (PathError op path ENOENT)) = True"
| "IsNotExist _ = False"

text \<open>\<^verbatim>\<open>os.Stat\<close>; the source drops the \<^verbatim>\<open>FileInfo\<close> and keeps the error.\<close>

definition Stat :: "Env \<Rightarrow> string \<Rightarrow> PathError option" where
  "Stat env name =
     (case files env name of
        None \<Rightarrow> Some (PathError ''stat'' name ENOENT)
      | Some NoDirectory \<Rightarrow> Some (PathError ''stat'' name ENOENT)
      | Some Unreachable \<Rightarrow> Some (PathError ''stat'' name EACCES)
      | Some Protected \<Rightarrow> None
      | Some (File d perm) \<Rightarrow> None)"

text \<open>\<^verbatim>\<open>ioutil.ReadFile\<close>.\<close>

definition ReadFile :: "Env \<Rightarrow> string \<Rightarrow> PathError + data" where
  "ReadFile env name =
     (case files env name of
        None \<Rightarrow> Inl (PathError ''open'' name ENOENT)
      | Some NoDirectory \<Rightarrow> Inl (PathError ''open'' name ENOENT)
      | Some Unreachable \<Rightarrow> Inl (PathError ''open'' name EACCES)
      | Some Protected \<Rightarrow> Inl (PathError ''open'' name EACCES)
      | Some (File d perm) \<Rightarrow> Inr d)"

text \<open>
  \<^verbatim>\<open>ioutil.WriteFile\<close>: the file is made with the given permission bits when the path names
  nothing, and an existing file gets the new contents and keeps its bits.
\<close>

definition WriteFile :: "Env \<Rightarrow> string \<Rightarrow> data \<Rightarrow> nat \<Rightarrow> Env \<times> PathError option" where
  "WriteFile env name d perm =
     (case files env name of
        None \<Rightarrow> (env\<lparr>files := (files env)(name \<mapsto> File d perm)\<rparr>, None)
      | Some NoDirectory \<Rightarrow> (env, Some (PathError ''open'' name ENOENT))
      | Some Unreachable \<Rightarrow> (env, Some (PathError ''open'' name EACCES))
      | Some Protected \<Rightarrow> (env, Some (PathError ''open'' name EACCES))
      | Some (File old perm') \<Rightarrow> (env\<lparr>files := (files env)(name \<mapsto> File d perm')\<rparr>, None))"

text \<open>\<^verbatim>\<open>os.Remove\<close>.\<close>

definition os_Remove :: "Env \<Rightarrow> string \<Rightarrow> Env \<times> PathError option" where
  "os_Remove env name =
     (case files env name of
        None \<Rightarrow> (env, Some (PathError ''remove'' name ENOENT))
      | Some NoDirectory \<Rightarrow> (env, Some (PathError ''remove'' name ENOENT))
      | Some Unreachable \<Rightarrow> (env, Some (PathError ''remove'' name EACCES))
      | Some Protected \<Rightarrow> (env, Some (PathError ''remove'' name EACCES))
      | Some (File d perm) \<Rightarrow> (env\<lparr>files := (files env)(name := None)\<rparr>, None))"

subsection \<open>Paths\<close>

text \<open>
  \<^verbatim>\<open>filepath.Join\<close> with the separator \<^verbatim>\<open>/\<close>: the elements from the first non-empty one
  on are joined with the separator and the result is cleaned. \<^verbatim>\<open>filepath.Clean\<close> drops
  empty elements and \<^verbatim>\<open>.\<close>, cancels an element against a following \<^verbatim>\<open>..\<close>, drops a
  \<^verbatim>\<open>..\<close> at the root, and gives \<^verbatim>\<open>.\<close> for an empty result.
\<close>

fun split_sep :: "string \<Rightarrow> string list" where
  "split_sep [] = [[]]"
| "split_sep (c # cs) =
     (if c = CHR ''/'' then [] # split_sep cs
      else (case split_sep cs of
              [] \<Rightarrow> [[c]]
            | x # xs \<Rightarrow> (c # x) # xs))"

fun join_sep :: "string list \<Rightarrow> string" where
  "join_sep [] = ''''"
| "join_sep [x] = x"
| "join_sep (x # y # ys) = x @ ''/'' @ join_sep (y # ys)"

text \<open>The elements kept so far are held in reverse.\<close>

fun clean_elem :: "bool \<Rightarrow> string list \<Rightarrow> string \<Rightarrow> string list" where
  "clean_elem rooted out e =
     (if e = '''' \<or> e = ''.'' then out
      else if e = ''..'' then
        (case out of
           [] \<Rightarrow> if rooted then [] else [e]
         | x # rest \<Rightarrow> if x = ''..'' then e # out else rest)
      else e # out)"

definition Clean :: "string \<Rightarrow> string" where
  "Clean path =
     (let rooted = (take 1 path = ''/'');
          out = join_sep (rev (foldl (clean_elem rooted) [] (split_sep path)))
      in if rooted then ''/'' @ out
         else if out = '''' then ''.''
         else out)"

fun Join :: "string list \<Rightarrow> string" where
  "Join [] = ''''"
| "Join (e # es) = (if e = '''' then Join es else Clean (join_sep (e # es)))"

subsection \<open>Location, Load, Save and Remove\<close>

text \<open>The \<^verbatim>\<open>'%s'\<close> of the format strings: the text between two single quotes.\<close>

definition quoted :: "string \<Rightarrow> string" where
  "quoted s = [CHR 0x27] @ s @ [CHR 0x27]"

text \<open>\<^verbatim>\<open>Location()\<close>, results \<^verbatim>\<open>(path, err)\<close>.\<close>

definition Location :: "Env \<Rightarrow> string \<times> error option" where
  "Location env =
     (let home = Getenv env ''HOME'' in
      if home = ''''
      then ('''', Some ''can't find home directory, HOME environment variable is empty'')
      else (Join [home, ''.uhc.json''], None))"

text \<open>
  \<^verbatim>\<open>Load()\<close>, results \<^verbatim>\<open>(cfg, err)\<close>; \<open>None\<close> for \<^verbatim>\<open>cfg\<close> is the \<^verbatim>\<open>nil\<close> pointer.
  When the file does not parse, the source returns the error together with the pointer to
  the struct that \<^verbatim>\<open>json.Unmarshal\<close> has filled as far as it could.
\<close>

definition Load :: "Env \<Rightarrow> Config option \<times> error option" where
  "Load env =
     (case Location env of
        (file, Some err) \<Rightarrow> (None, Some err)
      | (file, None) \<Rightarrow>
          (let err = Stat env file in
           if IsNotExist err then (None, None)
           else
             (case err of
                Some e \<Rightarrow>
                  (None,
                   Some (''can't check if config file '' @ quoted file @ '' exists: '' @ Error e))
              | None \<Rightarrow>
                  (case ReadFile env file of
                     Inl e \<Rightarrow>
                       (None, Some (''can't read config file '' @ quoted file @ '': '' @ Error e))
                   | Inr d \<Rightarrow>
                       (case Unmarshal d new_Config of
                          (cfg, Some e) \<Rightarrow>
                            (Some cfg,
                             Some (''can't parse config file '' @ quoted file @ '': '' @ e))
                        | (cfg, None) \<Rightarrow> (Some cfg, None))))))"

text \<open>\<^verbatim>\<open>Save(cfg)\<close>: the environment after the call, and the error. \<open>384\<close> is \<^verbatim>\<open>0600\<close>.\<close>

definition Save :: "Env \<Rightarrow> Config \<Rightarrow> Env \<times> error option" where
  "Save env cfg =
     (case Location env of
        (file, Some err) \<Rightarrow> (env, Some err)
      | (file, None) \<Rightarrow>
          (case MarshalIndent cfg of
             (d, Some e) \<Rightarrow> (env, Some (''can't marshal config: '' @ e))
           | (d, None) \<Rightarrow>
               (case WriteFile env file (Document d) 384 of
                  (env', Some e) \<Rightarrow>
                    (env', Some (''can't write file '' @ quoted file @ '': '' @ Error e))
                | (env', None) \<Rightarrow> (env', None))))"

text \<open>\<^verbatim>\<open>Remove()\<close>: the environment after the call, and the error.\<close>

definition Remove :: "Env \<Rightarrow> Env \<times> error option" where
  "Remove env =
     (case Location env of
        (file, Some err) \<Rightarrow> (env, Some err)
      | (file, None) \<Rightarrow>
          (if IsNotExist (Stat env file) then (env, None)
           else (case os_Remove env file of
                   (env', Some e) \<Rightarrow> (env', Some (Error e))
                 | (env', None) \<Rightarrow> (env', None))))"


subsection \<open>What a saved record is read back as\<close>

text \<open>The record with every string coerced to valid UTF-8, as the encoder writes it.\<close>

definition coerced :: "Config \<Rightarrow> Config" where
  "coerced cfg =
     \<lparr>AccessToken = json_string (AccessToken cfg),
      ClientID = json_string (ClientID cfg),
      ClientSecret = json_string (ClientSecret cfg),
      Insecure = Insecure cfg,
      Password = json_string (Password cfg),
      RefreshToken = json_string (RefreshToken cfg),
      Scopes = map json_string (Scopes cfg),
      Token = json_string (Token cfg),
      TokenURL = json_string (TokenURL cfg),
      URL = json_string (URL cfg),
      User = json_string (User cfg)\<rparr>"

text \<open>A record whose strings, the scopes among them, are all valid UTF-8.\<close>

definition valid_Config :: "Config \<Rightarrow> bool" where
  "valid_Config cfg =
     (ValidString (AccessToken cfg) \<and> ValidString (ClientID cfg) \<and>
      ValidString (ClientSecret cfg) \<and> ValidString (Password cfg) \<and>
      ValidString (RefreshToken cfg) \<and> list_all ValidString (Scopes cfg) \<and>
      ValidString (Token cfg) \<and> ValidString (TokenURL cfg) \<and> ValidString (URL cfg) \<and>
      ValidString (User cfg))"

text \<open>Copying one field of a record into another record, as encoding and decoding does.\<close>

fun coerce_val :: "val \<Rightarrow> val" where
  "coerce_val (VString s) = VString (json_string s)"
| "coerce_val (VBool b) = VBool b"
| "coerce_val (VStrings xs) = VStrings (map json_string xs)"

definition put :: "Config \<Rightarrow> Config \<Rightarrow> field \<Rightarrow> Config" where
  "put cfg c f = set_field f (coerce_val (get f cfg)) c"

subsection \<open>A parser for examples\<close>

text \<open>
  A parser for examples: it knows the tokens of a table and refuses every other text with the
  library's message for a text that does not have three segments.
\<close>

definition table_parser :: "(string \<times> (string \<times> json) list) list \<Rightarrow> Parser" where
  "table_parser table text =
     (case map_of table text of
        None \<Rightarrow> Inl ''token contains an invalid number of segments''
      | Some claims \<Rightarrow> Inr \<lparr>Claims = MapClaims (map_of claims)\<rparr>)"

section \<open>The armed check\<close>

text \<open>
  C1. A record in which user and password are both non-empty, or in which clientId and
  clientSecret are both non-empty while user or password is empty, is armed with no error,
  at every instant, with every parser and whatever the two token fields hold: the result
  does not depend on \<open>parse\<close>, so no token is decoded.
\<close>

theorem Armed_static_credentials:
  assumes "(User cfg \<noteq> '''' \<and> Password cfg \<noteq> '''') \<or>
           (ClientID cfg \<noteq> '''' \<and> ClientSecret cfg \<noteq> '''' \<and>
            (User cfg = '''' \<or> Password cfg = ''''))"
  shows "Armed parse now cfg = (True, None)"
  using assms unfolding Armed_def by auto

theorem Armed_static_credentials_witness:
  "Armed (table_parser []) 0
     (new_Config\<lparr>ClientID := ''id'', ClientSecret := ''secret'', User := ''u'',
        AccessToken := ''garbage'', RefreshToken := ''garbage''\<rparr>) = (True, None)"
  by (rule Armed_static_credentials) (simp add: new_Config_def)

subsection \<open>The time left on a token\<close>

text \<open>Truncation towards zero moves a number by less than one.\<close>

lemma trunc_gt: "x - 1 < of_int (trunc x)"
  unfolding trunc_def by (auto; linarith)

lemma trunc_lt: "of_int (trunc x) < x + 1"
  unfolding trunc_def by (auto; linarith)

lemma int64_in_range: "- (2 ^ 63) \<le> trunc x \<Longrightarrow> trunc x < 2 ^ 63 \<Longrightarrow> int64 x = trunc x"
  by (simp add: int64_def)

text \<open>
  When the \<^verbatim>\<open>exp\<close> claim is the instant \<open>now\<close> plus \<open>k\<close> seconds, the time left
  that \<^verbatim>\<open>tokenExpiry\<close> computes lies strictly between \<open>k - 1\<close> and \<open>k + 1\<close> seconds:
  the claim counts seconds and may have a fraction, which \<^verbatim>\<open>int64(exp)\<close> drops.
\<close>

lemma left_gt:
  assumes r: "- (2 ^ 63) \<le> trunc e" "trunc e < 2 ^ 63"
    and e: "e = of_int now / of_int Second + of_int k"
    and d: "0 \<le> d" "d < maxDuration" "d = (k - 1) * Second"
  shows "d < Sub (Unix (int64 e) 0) now"
proof -
  have "(e - 1) * 1000000000 < of_int (trunc e) * 1000000000"
    using trunc_gt [of e] by simp
  moreover have "(e - 1) * 1000000000 = of_int (now + d)"
    using e d by (simp add: Second_def field_simps)
  ultimately have "of_int (now + d) < (of_int (trunc e * 1000000000) :: rat)"
    by simp
  then have "now + d < trunc e * 1000000000"
    by (simp only: of_int_less_iff)
  then show ?thesis
    using d r by (auto simp: Sub_def Unix_def int64_in_range minDuration_def maxDuration_def)
qed

lemma left_lt:
  assumes r: "- (2 ^ 63) \<le> trunc e" "trunc e < 2 ^ 63"
    and e: "e = of_int now / of_int Second + of_int k"
    and d: "0 \<le> d" "d \<le> maxDuration" "d = (k + 1) * Second"
  shows "Sub (Unix (int64 e) 0) now < d"
proof -
  have "of_int (trunc e) * 1000000000 < (e + 1) * 1000000000"
    using trunc_lt [of e] by simp
  moreover have "(e + 1) * 1000000000 = of_int (now + d)"
    using e d by (simp add: Second_def field_simps)
  ultimately have "(of_int (trunc e * 1000000000) :: rat) < of_int (now + d)"
    by simp
  then have "trunc e * 1000000000 < now + d"
    by (simp only: of_int_less_iff)
  then show ?thesis
    using d r by (auto simp: Sub_def Unix_def int64_in_range minDuration_def maxDuration_def)
qed

text \<open>What \<^verbatim>\<open>tokenExpiry\<close> gives on a token that parses and whose \<^verbatim>\<open>exp\<close> is a number.\<close>

lemma tokenExpiry_number:
  assumes "parse text = Inr token" "Claims token = MapClaims claims"
    and "claims ''exp'' = Some (JNumber e)"
  shows "tokenExpiry parse text now =
     (if e = 0 then (False, 0, None) else (True, Sub (Unix (int64 e) 0) now, None))"
  using assms by (simp add: tokenExpiry_def)

subsection \<open>The threshold of the access token\<close>

text \<open>
  C2, as the code has it. Take a record with no complete pair of static credentials and no
  refresh token, whose access token parses to map claims with a numeric \<^verbatim>\<open>exp\<close> in the
  range of \<^verbatim>\<open>int64\<close>. When \<^verbatim>\<open>exp\<close> is \<open>now\<close> plus 6 seconds the record is armed,
  with no error. When \<^verbatim>\<open>exp\<close> is \<open>now\<close> plus 4 seconds and is not zero, the record
  is not armed, with no error. In general, when \<^verbatim>\<open>exp\<close> is not zero the record is armed
  exactly when more than 5 seconds are left.
\<close>

theorem Armed_access_token_threshold:
  assumes "\<not> (User cfg \<noteq> '''' \<and> Password cfg \<noteq> '''')"
    and "\<not> (ClientID cfg \<noteq> '''' \<and> ClientSecret cfg \<noteq> '''')"
    and "AccessToken cfg \<noteq> ''''" and "RefreshToken cfg = ''''"
    and "parse (AccessToken cfg) = Inr token" and "Claims token = MapClaims claims"
    and "claims ''exp'' = Some (JNumber e)"
    and "- (2 ^ 63) \<le> trunc e" and "trunc e < 2 ^ 63"
  shows "(e = of_int now / of_int Second + 6 \<longrightarrow> Armed parse now cfg = (True, None)) \<and>
         (e = of_int now / of_int Second + 4 \<and> e \<noteq> 0 \<longrightarrow> Armed parse now cfg = (False, None)) \<and>
         (e \<noteq> 0 \<longrightarrow> Armed parse now cfg = (5 * Second < Sub (Unix (int64 e) 0) now, None))"
proof (intro conjI impI)
  assume e: "e = of_int now / of_int Second + 6"
  have "5 * Second < Sub (Unix (int64 e) 0) now"
    by (rule left_gt [where k = 6]) (use assms e in \<open>simp_all add: Second_def maxDuration_def\<close>)
  then show "Armed parse now cfg = (True, None)"
    using assms by (simp add: Armed_def tokenExpiry_number)
next
  assume e: "e = of_int now / of_int Second + 4 \<and> e \<noteq> 0"
  have "Sub (Unix (int64 e) 0) now < 5 * Second"
    by (rule left_lt [where k = 4]) (use assms e in \<open>simp_all add: Second_def maxDuration_def\<close>)
  then show "Armed parse now cfg = (False, None)"
    using assms e by (simp add: Armed_def tokenExpiry_number)
next
  assume "e \<noteq> 0"
  then show "Armed parse now cfg = (5 * Second < Sub (Unix (int64 e) 0) now, None)"
    using assms by (simp add: Armed_def tokenExpiry_number)
qed

theorem Armed_access_token_threshold_witness:
  "Armed (table_parser [(''h.p.s'', [(''exp'', JNumber 106)])]) (100 * Second)
     (new_Config\<lparr>AccessToken := ''h.p.s''\<rparr>) = (True, None) \<and>
   Armed (table_parser [(''h.p.s'', [(''exp'', JNumber 104)])]) (100 * Second)
     (new_Config\<lparr>AccessToken := ''h.p.s''\<rparr>) = (False, None)"
  using
    Armed_access_token_threshold [of "new_Config\<lparr>AccessToken := ''h.p.s''\<rparr>"
      "table_parser [(''h.p.s'', [(''exp'', JNumber 106)])]"
      "\<lparr>Claims = MapClaims (map_of [(''exp'', JNumber 106)])\<rparr>"
      "map_of [(''exp'', JNumber 106)]" 106 "100 * Second"]
    Armed_access_token_threshold [of "new_Config\<lparr>AccessToken := ''h.p.s''\<rparr>"
      "table_parser [(''h.p.s'', [(''exp'', JNumber 104)])]"
      "\<lparr>Claims = MapClaims (map_of [(''exp'', JNumber 104)])\<rparr>"
      "map_of [(''exp'', JNumber 104)]" 104 "100 * Second"]
  by (simp add: new_Config_def table_parser_def trunc_def Second_def)

text \<open>
  C2 as it is stated fails 4 seconds before the Unix epoch: \<open>now\<close> plus 4 seconds is
  then the value zero, which \<^verbatim>\<open>tokenExpiry\<close> reads as a token that does not expire, and
  the record is armed.
\<close>

theorem Armed_access_token_threshold_counterexample:
  "(0 :: rat) = of_int (- 4 * Second) / of_int Second + 4 \<and>
   Armed (table_parser [(''h.p.s'', [(''exp'', JNumber 0)])]) (- 4 * Second)
     (new_Config\<lparr>AccessToken := ''h.p.s''\<rparr>) = (True, None)"
  by (simp add: Armed_def tokenExpiry_def table_parser_def new_Config_def Second_def)

subsection \<open>An access token that cannot be evaluated\<close>

text \<open>
  C3, as the code has it. Take a record with no complete pair of static credentials and a
  non-empty access token on which \<^verbatim>\<open>tokenExpiry\<close> fails. \<^verbatim>\<open>Armed\<close> returns that
  error and \<^verbatim>\<open>armed = false\<close>, whatever the refresh token of the record is: the refresh
  token is not evaluated.
\<close>

theorem Armed_access_token_error:
  assumes "\<not> (User cfg \<noteq> '''' \<and> Password cfg \<noteq> '''')"
    and "\<not> (ClientID cfg \<noteq> '''' \<and> ClientSecret cfg \<noteq> '''')"
    and "AccessToken cfg \<noteq> ''''"
    and "tokenExpiry parse (AccessToken cfg) now = (expires, left, Some err)"
  shows "Armed parse now (cfg\<lparr>RefreshToken := refresh\<rparr>) = (False, Some err)"
  using assms by (simp add: Armed_def)

theorem Armed_access_token_error_witness:
  "Armed (table_parser [(''h.p.s'', [(''exp'', JNumber 0)])]) 0
     (new_Config\<lparr>AccessToken := ''garbage'', RefreshToken := ''h.p.s''\<rparr>) =
   (False, Some ''cant parse token: token contains an invalid number of segments'')"
  using Armed_access_token_error [of "new_Config\<lparr>AccessToken := ''garbage''\<rparr>"
      "table_parser [(''h.p.s'', [(''exp'', JNumber 0)])]" 0 False 0
      "''cant parse token: token contains an invalid number of segments''" "''h.p.s''"]
  by (simp add: new_Config_def table_parser_def tokenExpiry_def)

text \<open>
  C3 as it is stated, for every record, fails on a record that also holds a user and a
  password: the access token is not looked at, and the record is armed with no error.
\<close>

theorem Armed_access_token_error_counterexample:
  "AccessToken (new_Config\<lparr>User := ''u'', Password := ''p'', AccessToken := ''garbage''\<rparr>) \<noteq> '''' \<and>
   tokenExpiry (table_parser []) ''garbage'' 0 =
     (False, 0, Some ''cant parse token: token contains an invalid number of segments'') \<and>
   Armed (table_parser []) 0
     (new_Config\<lparr>User := ''u'', Password := ''p'', AccessToken := ''garbage''\<rparr>) = (True, None)"
  by (simp add: Armed_def tokenExpiry_def table_parser_def new_Config_def)

subsection \<open>An expired access token and a good refresh token\<close>







subsection \<open>The threshold of the refresh token\<close>

text \<open>
  C5, as the code has it. Take a record with no complete pair of static credentials and no
  access token, whose refresh token parses to map claims with a numeric \<^verbatim>\<open>exp\<close> in the
  range of \<^verbatim>\<open>int64\<close>. When \<^verbatim>\<open>exp\<close> is \<open>now\<close> plus 11 seconds the record is armed,
  with no error. When \<^verbatim>\<open>exp\<close> is \<open>now\<close> plus 9 seconds and is not zero, the record
  is not armed, with no error. In general, when \<^verbatim>\<open>exp\<close> is not zero the record is armed
  exactly when more than 10 seconds are left.
\<close>

theorem Armed_refresh_token_threshold:
  assumes "\<not> (User cfg \<noteq> '''' \<and> Password cfg \<noteq> '''')"
    and "\<not> (ClientID cfg \<noteq> '''' \<and> ClientSecret cfg \<noteq> '''')"
    and "AccessToken cfg = ''''" and "RefreshToken cfg \<noteq> ''''"
    and "parse (RefreshToken cfg) = Inr token" and "Claims token = MapClaims claims"
    and "claims ''exp'' = Some (JNumber e)"
    and "- (2 ^ 63) \<le> trunc e" and "trunc e < 2 ^ 63"
  shows "(e = of_int now / of_int Second + 11 \<longrightarrow> Armed parse now cfg = (True, None)) \<and>
         (e = of_int now / of_int Second + 9 \<and> e \<noteq> 0 \<longrightarrow> Armed parse now cfg = (False, None)) \<and>
         (e \<noteq> 0 \<longrightarrow> Armed parse now cfg = (10 * Second < Sub (Unix (int64 e) 0) now, None))"
proof (intro conjI impI)
  assume e: "e = of_int now / of_int Second + 11"
  have "10 * Second < Sub (Unix (int64 e) 0) now"
    by (rule left_gt [where k = 11]) (use assms e in \<open>simp_all add: Second_def maxDuration_def\<close>)
  then show "Armed parse now cfg = (True, None)"
    using assms by (simp add: Armed_def tokenExpiry_number)
next
  assume e: "e = of_int now / of_int Second + 9 \<and> e \<noteq> 0"
  have "Sub (Unix (int64 e) 0) now < 10 * Second"
    by (rule left_lt [where k = 9]) (use assms e in \<open>simp_all add: Second_def maxDuration_def\<close>)
  then show "Armed parse now cfg = (False, None)"
    using assms e by (simp add: Armed_def tokenExpiry_number)
next
  assume "e \<noteq> 0"
  then show "Armed parse now cfg = (10 * Second < Sub (Unix (int64 e) 0) now, None)"
    using assms by (simp add: Armed_def tokenExpiry_number)
qed

theorem Armed_refresh_token_threshold_witness:
  "Armed (table_parser [(''h.p.s'', [(''exp'', JNumber 111)])]) (100 * Second)
     (new_Config\<lparr>RefreshToken := ''h.p.s''\<rparr>) = (True, None) \<and>
   Armed (table_parser [(''h.p.s'', [(''exp'', JNumber 109)])]) (100 * Second)
     (new_Config\<lparr>RefreshToken := ''h.p.s''\<rparr>) = (False, None)"
  using
    Armed_refresh_token_threshold [of "new_Config\<lparr>RefreshToken := ''h.p.s''\<rparr>"
      "table_parser [(''h.p.s'', [(''exp'', JNumber 111)])]"
      "\<lparr>Claims = MapClaims (map_of [(''exp'', JNumber 111)])\<rparr>"
      "map_of [(''exp'', JNumber 111)]" 111 "100 * Second"]
    Armed_refresh_token_threshold [of "new_Config\<lparr>RefreshToken := ''h.p.s''\<rparr>"
      "table_parser [(''h.p.s'', [(''exp'', JNumber 109)])]"
      "\<lparr>Claims = MapClaims (map_of [(''exp'', JNumber 109)])\<rparr>"
      "map_of [(''exp'', JNumber 109)]" 109 "100 * Second"]
  by (simp add: new_Config_def table_parser_def trunc_def Second_def)

text \<open>
  C5 as it is stated fails 9 seconds before the Unix epoch, where \<open>now\<close> plus 9 seconds
  is the value zero: the token does not expire and the record is armed.
\<close>

theorem Armed_refresh_token_threshold_counterexample:
  "(0 :: rat) = of_int (- 9 * Second) / of_int Second + 9 \<and>
   Armed (table_parser [(''h.p.s'', [(''exp'', JNumber 0)])]) (- 9 * Second)
     (new_Config\<lparr>RefreshToken := ''h.p.s''\<rparr>) = (True, None)"
  by (simp add: Armed_def tokenExpiry_def table_parser_def new_Config_def Second_def)

subsection \<open>The claim exp: zero, missing, not a number\<close>

text \<open>
  C6. On a token that parses to map claims whose \<^verbatim>\<open>exp\<close> is the number zero,
  \<^verbatim>\<open>tokenExpiry\<close> returns \<^verbatim>\<open>expires = false\<close>, \<^verbatim>\<open>left = 0\<close> and no error, and a
  record with that token as its access token, or as its refresh token with no access token,
  is armed with no error, at every instant \<open>now\<close>.
\<close>

theorem exp_zero_never_expires:
  assumes "parse tok = Inr token" and "Claims token = MapClaims claims"
    and "claims ''exp'' = Some (JNumber 0)" and "tok \<noteq> ''''"
  shows "tokenExpiry parse tok now = (False, 0, None) \<and>
         (AccessToken cfg = tok \<or> (AccessToken cfg = '''' \<and> RefreshToken cfg = tok) \<longrightarrow>
          Armed parse now cfg = (True, None))"
  using assms by (auto simp add: Armed_def tokenExpiry_number)

theorem exp_zero_never_expires_witness:
  "tokenExpiry (table_parser [(''h.p.s'', [(''exp'', JNumber 0)])]) ''h.p.s'' (100 * Second) =
     (False, 0, None) \<and>
   Armed (table_parser [(''h.p.s'', [(''exp'', JNumber 0)])]) (100 * Second)
     (new_Config\<lparr>RefreshToken := ''h.p.s''\<rparr>) = (True, None)"
  using exp_zero_never_expires
    [where parse = "table_parser [(''h.p.s'', [(''exp'', JNumber 0)])]" and tok = "''h.p.s''"
      and token = "\<lparr>Claims = MapClaims (map_of [(''exp'', JNumber 0)])\<rparr>"
      and claims = "map_of [(''exp'', JNumber 0)]"
      and cfg = "new_Config\<lparr>RefreshToken := ''h.p.s''\<rparr>" and now = "100 * Second"]
  by (simp add: new_Config_def table_parser_def)

text \<open>
  C7. On a token that parses to map claims with no \<^verbatim>\<open>exp\<close>, \<^verbatim>\<open>tokenExpiry\<close> fails
  with the error "token doesn't contain the 'exp' claim", and \<^verbatim>\<open>Armed\<close> on a record with
  no complete pair of static credentials and that token (as access token, or as refresh token
  with no access token) returns that error with \<^verbatim>\<open>armed = false\<close>. When \<^verbatim>\<open>exp\<close> is
  there and is not a number, both fail with another error, which names the type found.
\<close>

theorem exp_missing_or_not_a_number:
  assumes "parse tok = Inr token" and "Claims token = MapClaims claims" and "tok \<noteq> ''''"
    and "\<not> (User cfg \<noteq> '''' \<and> Password cfg \<noteq> '''')"
    and "\<not> (ClientID cfg \<noteq> '''' \<and> ClientSecret cfg \<noteq> '''')"
    and "AccessToken cfg = tok \<or> (AccessToken cfg = '''' \<and> RefreshToken cfg = tok)"
  shows "(claims ''exp'' = None \<longrightarrow>
            tokenExpiry parse tok now = (False, 0, Some ''token doesn't contain the 'exp' claim'') \<and>
            Armed parse now cfg = (False, Some ''token doesn't contain the 'exp' claim'')) \<and>
         (claims ''exp'' = Some claim \<and> assert_float64 claim = None \<longrightarrow>
            tokenExpiry parse tok now =
              (False, 0, Some (''expected floating point 'exp' but got '' @ go_type claim)) \<and>
            ''expected floating point 'exp' but got '' @ go_type claim \<noteq>
              ''token doesn't contain the 'exp' claim'' \<and>
            Armed parse now cfg =
              (False, Some (''expected floating point 'exp' but got '' @ go_type claim)))"
  using assms by (auto simp add: Armed_def tokenExpiry_def)

theorem exp_missing_or_not_a_number_witness:
  "Armed (table_parser [(''h.p.s'', [(''sub'', JString ''me'')])]) 0
     (new_Config\<lparr>AccessToken := ''h.p.s''\<rparr>) =
     (False, Some ''token doesn't contain the 'exp' claim'') \<and>
   Armed (table_parser [(''h.p.s'', [(''exp'', JString ''1555555555'')])]) 0
     (new_Config\<lparr>RefreshToken := ''h.p.s''\<rparr>) =
     (False, Some ''expected floating point 'exp' but got string'')"
  using
    exp_missing_or_not_a_number
      [where parse = "table_parser [(''h.p.s'', [(''sub'', JString ''me'')])]" and tok = "''h.p.s''"
        and token = "\<lparr>Claims = MapClaims (map_of [(''sub'', JString ''me'')])\<rparr>"
        and claims = "map_of [(''sub'', JString ''me'')]"
        and cfg = "new_Config\<lparr>AccessToken := ''h.p.s''\<rparr>" and now = 0]
    exp_missing_or_not_a_number
      [where parse = "table_parser [(''h.p.s'', [(''exp'', JString ''1555555555'')])]"
        and tok = "''h.p.s''"
        and token = "\<lparr>Claims = MapClaims (map_of [(''exp'', JString ''1555555555'')])\<rparr>"
        and claims = "map_of [(''exp'', JString ''1555555555'')]"
        and cfg = "new_Config\<lparr>RefreshToken := ''h.p.s''\<rparr>"
        and claim = "JString ''1555555555''" and now = 0]
  by (simp add: new_Config_def table_parser_def)

subsection \<open>An error is never returned with armed = true\<close>

text \<open>
  C10. For every parser, instant and record, when \<^verbatim>\<open>Armed\<close> returns an error it returns
  \<^verbatim>\<open>armed = false\<close>; and the record with every field empty is not armed, with no error.
\<close>

theorem Armed_never_true_with_error:
  "(snd (Armed parse now cfg) \<noteq> None \<longrightarrow> fst (Armed parse now cfg) = False) \<and>
   Armed parse now new_Config = (False, None)"
  by (auto simp add: Armed_def new_Config_def split: prod.splits option.splits)

theorem Armed_never_true_with_error_witness:
  "snd (Armed (table_parser []) 0 (new_Config\<lparr>RefreshToken := ''garbage''\<rparr>)) \<noteq> None \<and>
   fst (Armed (table_parser []) 0 (new_Config\<lparr>RefreshToken := ''garbage''\<rparr>)) = False"
  using Armed_never_true_with_error [of "table_parser []" 0 "new_Config\<lparr>RefreshToken := ''garbage''\<rparr>"]
  by (simp add: Armed_def tokenExpiry_def table_parser_def new_Config_def)

section \<open>The store\<close>

subsection \<open>Decoding what was encoded\<close>

text \<open>A valid string is written as it is.\<close>

lemma json_string_Nil: "json_string '''' = ''''"
  by (simp add: json_string_def)

lemma valid_coerce: "valid k s \<Longrightarrow> coerce k s = s"
  by (induction k s rule: coerce.induct) (auto simp del: rune_size.simps split: nat.splits)

lemma ValidString_json_string: "ValidString s \<Longrightarrow> json_string s = s"
  by (simp add: ValidString_def json_string_def valid_coerce)

text \<open>
  Decoding the member written for a field stores the coerced value of that field, and
  touches no other field.
\<close>

lemma decode_strings:
  "map ((\<lambda>x. fst (decode_element f x)) \<circ> (\<lambda>s. JString (g s))) xs = map g xs"
  by (induction xs) simp_all

lemma decode_strings_no_error:
  "foldl first_error None (map ((\<lambda>x. snd (decode_element f x)) \<circ> (\<lambda>s. JString (g s))) xs) = None"
  by (induction xs) (simp_all add: first_error_def)

lemma find_field_key: "find_field (key f) = Some f"
  by (cases f) (simp_all add: find_field_def typeFields_def)

lemma decode_value_encode:
  "decode_value f (encode (get f cfg)) c = (put cfg c f, None)"
  by (cases f) (simp_all add: decode_value_def put_def decode_strings decode_strings_no_error)

lemma put_empty:
  "isEmptyValue (get f cfg) \<Longrightarrow> isEmptyValue (get f c) \<Longrightarrow> put cfg c f = c"
  by (cases f) (simp_all add: put_def json_string_Nil)

lemma decode_encoded_field:
  assumes "isEmptyValue (get f c)"
  shows "foldl decode_member (c, e) (encode_field cfg f) = (put cfg c f, e)"
proof (cases "isEmptyValue (get f cfg)")
  case True
  with assms show ?thesis
    by (simp add: encode_field_def put_empty)
next
  case False
  then show ?thesis
    by (simp add: encode_field_def decode_member_def find_field_key decode_value_encode
        first_error_def split: option.splits)
qed

lemma get_put_other: "g \<noteq> f \<Longrightarrow> get g (put cfg c f) = get g c"
  by (cases f; cases g) (simp_all add: put_def)

lemma decode_encoded_fields:
  assumes "distinct fs" and "\<forall>f \<in> set fs. isEmptyValue (get f c)"
  shows "foldl decode_member (c, e) (concat (map (encode_field cfg) fs)) =
         (foldl (put cfg) c fs, e)"
  using assms
proof (induction fs arbitrary: c)
  case Nil
  then show ?case by simp
next
  case (Cons f fs)
  have "isEmptyValue (get g (put cfg c f))" if "g \<in> set fs" for g
  proof -
    from that Cons.prems have "g \<noteq> f" and "isEmptyValue (get g c)"
      by auto
    then show ?thesis
      by (simp add: get_put_other)
  qed
  then have "\<forall>g \<in> set fs. isEmptyValue (get g (put cfg c f))"
    by blast
  with Cons show ?case
    by (simp add: decode_encoded_field)
qed

lemma put_all_fields: "foldl (put cfg) new_Config typeFields = coerced cfg"
  by (simp add: typeFields_def put_def new_Config_def coerced_def)

text \<open>Decoding the document of a record into a new record gives the coerced record.\<close>

lemma Unmarshal_MarshalIndent:
  "Unmarshal (Document (fst (MarshalIndent cfg))) new_Config = (coerced cfg, None)"
proof -
  have "distinct typeFields"
    by (simp add: typeFields_def)
  moreover have "\<forall>f \<in> set typeFields. isEmptyValue (get f new_Config)"
    by (simp add: typeFields_def new_Config_def)
  ultimately have
    "foldl decode_member (new_Config, None) (concat (map (encode_field cfg) typeFields)) =
     (foldl (put cfg) new_Config typeFields, None)"
    by (rule decode_encoded_fields)
  then show ?thesis
    by (simp only: MarshalIndent_def fst_conv Unmarshal.simps put_all_fields)
qed

lemma valid_Config_coerced: "valid_Config cfg \<Longrightarrow> coerced cfg = cfg"
  by (simp add: valid_Config_def coerced_def ValidString_json_string list_all_iff map_idI)

subsection \<open>Save and then Load\<close>

lemma Location_environ: "environ env' = environ env \<Longrightarrow> Location env' = Location env"
  by (simp add: Location_def Getenv_def)

lemma WriteFile_ok:
  assumes "WriteFile env name d perm = (env', None)"
  shows "environ env' = environ env \<and> (\<exists>p. files env' name = Some (File d p))"
  using assms by (auto simp add: WriteFile_def split: option.splits node.splits)

lemma Save_ok:
  assumes "Save env cfg = (env', None)"
  shows "\<exists>path. Location env = (path, None) \<and>
           WriteFile env path (Document (fst (MarshalIndent cfg))) 384 = (env', None)"
proof (cases "Location env")
  case (Pair path err)
  show ?thesis
  proof (cases err)
    case None
    obtain env'' e where w: "WriteFile env path (Document (fst (MarshalIndent cfg))) 384 = (env'', e)"
      by (cases "WriteFile env path (Document (fst (MarshalIndent cfg))) 384")
    with assms Pair None have "env'' = env'" and "e = None"
      by (simp_all add: Save_def MarshalIndent_def split: option.splits)
    with w Pair None show ?thesis
      by simp
  next
    case (Some e)
    with assms Pair show ?thesis
      by (simp add: Save_def)
  qed
qed

lemma Load_after_write:
  assumes "Location env' = (path, None)"
    and "files env' path = Some (File (Document (fst (MarshalIndent cfg))) p)"
  shows "Load env' = (Some (coerced cfg), None)"
proof -
  have "Stat env' path = None"
    using assms by (simp add: Stat_def)
  moreover have "ReadFile env' path = Inr (Document (fst (MarshalIndent cfg)))"
    using assms by (simp add: ReadFile_def)
  ultimately show ?thesis
    using assms(1) by (simp add: Load_def Unmarshal_MarshalIndent)
qed

lemma Location_example:
  "Location \<lparr>environ = [''HOME'' \<mapsto> ''/home/u''], files = fs\<rparr> = (''/home/u/.uhc.json'', None)"
  by (simp add: Location_def Getenv_def Clean_def)

text \<open>
  C8, as the code has it. When \<^verbatim>\<open>Save\<close> returns no error, \<^verbatim>\<open>Load\<close> in the environment
  it leaves (the same \<^verbatim>\<open>HOME\<close>, nothing else done to the files) returns, with no error,
  the record saved with every string coerced to valid UTF-8; for a record whose strings are
  all valid UTF-8 that is the record saved, equal in every field, the empty fields still
  empty.
\<close>

theorem Save_then_Load:
  assumes "Save env cfg = (env', None)"
  shows "Load env' = (Some (coerced cfg), None) \<and>
         (valid_Config cfg \<longrightarrow> Load env' = (Some cfg, None))"
proof -
  from assms obtain path where loc: "Location env = (path, None)"
    and w: "WriteFile env path (Document (fst (MarshalIndent cfg))) 384 = (env', None)"
    using Save_ok by blast
  from w obtain p where same: "environ env' = environ env"
    and written: "files env' path = Some (File (Document (fst (MarshalIndent cfg))) p)"
    using WriteFile_ok by blast
  from loc have "Location env' = (path, None)"
    using Location_environ [OF same] by simp
  then have "Load env' = (Some (coerced cfg), None)"
    using written by (rule Load_after_write)
  moreover have "coerced cfg = cfg" if "valid_Config cfg"
    using that by (rule valid_Config_coerced)
  ultimately show ?thesis
    by simp
qed

theorem Save_then_Load_witness:
  "Load (fst (Save \<lparr>environ = [''HOME'' \<mapsto> ''/home/u''], files = Map.empty\<rparr>
      (new_Config\<lparr>Insecure := True, Password := [CHR 0xC3, CHR 0xA9], Scopes := [''openid''],
         User := ''alice''\<rparr>))) =
   (Some (new_Config\<lparr>Insecure := True, Password := [CHR 0xC3, CHR 0xA9], Scopes := [''openid''],
         User := ''alice''\<rparr>), None)"
proof -
  let ?env = "\<lparr>environ = [''HOME'' \<mapsto> ''/home/u''], files = Map.empty\<rparr>"
  let ?cfg = "new_Config\<lparr>Insecure := True, Password := [CHR 0xC3, CHR 0xA9],
    Scopes := [''openid''], User := ''alice''\<rparr>"
  have "snd (Save ?env ?cfg) = None"
    by (simp add: Save_def Location_example MarshalIndent_def WriteFile_def)
  then have saved: "Save ?env ?cfg = (fst (Save ?env ?cfg), None)"
    by (simp add: prod_eq_iff)
  have "valid_Config ?cfg"
    by (simp add: valid_Config_def new_Config_def ValidString_def byte_def cont_def)
  with Save_then_Load [OF saved] show ?thesis
    by blast
qed

text \<open>
  C8 as it is stated, for every record, fails on a password that is the one byte \<open>0xFF\<close>,
  which is not valid UTF-8: the record read back has the three bytes of U+FFFD for it.
\<close>

theorem Save_then_Load_counterexample:
  "snd (Save \<lparr>environ = [''HOME'' \<mapsto> ''/home/u''], files = Map.empty\<rparr>
      (new_Config\<lparr>Password := [CHR 0xFF]\<rparr>)) = None \<and>
   Load (fst (Save \<lparr>environ = [''HOME'' \<mapsto> ''/home/u''], files = Map.empty\<rparr>
      (new_Config\<lparr>Password := [CHR 0xFF]\<rparr>))) =
     (Some (new_Config\<lparr>Password := [CHR 0xEF, CHR 0xBF, CHR 0xBD]\<rparr>), None) \<and>
   new_Config\<lparr>Password := [CHR 0xEF, CHR 0xBF, CHR 0xBD]\<rparr> \<noteq> new_Config\<lparr>Password := [CHR 0xFF]\<rparr>"
proof -
  let ?env = "\<lparr>environ = [''HOME'' \<mapsto> ''/home/u''], files = Map.empty\<rparr>"
  let ?cfg = "new_Config\<lparr>Password := [CHR 0xFF]\<rparr>"
  have s: "Save ?env ?cfg =
    (?env\<lparr>files := [''/home/u/.uhc.json'' \<mapsto> File (Document (fst (MarshalIndent ?cfg))) 384]\<rparr>, None)"
    by (simp add: Save_def Location_example MarshalIndent_def WriteFile_def)
  have "Load (fst (Save ?env ?cfg)) = (Some (coerced ?cfg), None)"
    unfolding s fst_conv
    by (rule Load_after_write [where path = "''/home/u/.uhc.json''" and p = 384])
      (simp_all add: Location_example)
  moreover have "coerced ?cfg = new_Config\<lparr>Password := [CHR 0xEF, CHR 0xBF, CHR 0xBD]\<rparr>"
    by (simp add: coerced_def new_Config_def json_string_def byte_def)
  ultimately show ?thesis
    using s by (simp add: new_Config_def)
qed

subsection \<open>No configuration file\<close>

text \<open>
  C9. When \<^verbatim>\<open>Location\<close> gives a path with no error and there is no file at that path,
  \<^verbatim>\<open>Load\<close> returns no record (\<^verbatim>\<open>nil\<close>) and no error, and \<^verbatim>\<open>Remove\<close> returns no
  error and leaves the environment as it was.
\<close>

theorem missing_file_is_not_an_error:
  assumes "Location env = (path, None)"
    and "files env path = None \<or> files env path = Some NoDirectory"
  shows "Load env = (None, None) \<and> Remove env = (env, None)"
proof -
  have "IsNotExist (Stat env path)"
    using assms(2) by (auto simp add: Stat_def)
  then show ?thesis
    using assms(1) by (simp add: Load_def Remove_def)
qed

theorem missing_file_is_not_an_error_witness:
  "Load \<lparr>environ = [''HOME'' \<mapsto> ''/home/u''], files = Map.empty\<rparr> = (None, None) \<and>
   Remove \<lparr>environ = [''HOME'' \<mapsto> ''/home/u''], files = Map.empty\<rparr> =
     (\<lparr>environ = [''HOME'' \<mapsto> ''/home/u''], files = Map.empty\<rparr>, None)"
  by (rule missing_file_is_not_an_error [where path = "''/home/u/.uhc.json''"])
    (simp_all add: Location_example)

end
